theory Spec2Isabelle
  imports Main "HOL-Library.Multiset"
begin

section \<open>Data model (database.py)\<close>

text \<open>
  A \<open>datetime\<close> is a count of microseconds; \<open>timedelta(days=1)\<close> is the constant
  \<open>one_day\<close>. Primary keys and Telegram ids are Python integers. A Python \<open>str\<close>
  is a \<open>string\<close> with one \<open>char\<close> for each code point, so \<open>length\<close> is
  Python's \<open>len\<close>; the texts of the model are those whose code points fit a
  \<open>char\<close>.
\<close>

type_synonym datetime = int

definition one_day :: int where
  "one_day = 86400000000"

text \<open>The columns of \<open>class User\<close> (database.py, lines 29-46).\<close>

record user =
  id_user :: int
  telegram_id :: int
  username :: "string option"
  first_name :: string
  last_name :: "string option"
  phone_number :: "string option"
  real_name :: "string option"
  country :: "string option"
  language :: string
  about :: "string option"
  registration_complete :: bool

text \<open>
  The columns of \<open>class Event\<close> (lines 57-82). The relationship \<open>participants\<close> is
  the list of the primary keys of the users linked through \<open>event_participants\<close>, in
  the order the collection holds them.
\<close>

record event =
  id_event :: int
  title :: string
  description :: string
  location :: string
  event_date :: datetime
  max_participants :: "int option"
  price :: "int option"
  event_type :: string
  difficulty_level :: "string option"
  music_genre :: "string option"
  max_teams :: "int option"
  team_size :: "int option"
  theme :: "string option"
  creator_id :: int
  participants :: "int list"
  is_active :: bool
  notification_sent :: bool

text \<open>The columns of \<open>class Payment\<close> (lines 103-115).\<close>

record payment =
  id_payment :: int
  stripe_payment_id :: string
  amount :: int
  currency :: string
  status :: string
  user_id :: int
  event_id :: int

section \<open>Event registry: join, leave, cancel\<close>

text \<open>
  \<open>join_event\<close> (lines 200-206). The guard is Python's
  \<open>event.max_participants and len(event.participants) >= event.max_participants\<close>:
  \<open>None\<close> and \<open>0\<close> are both falsy, so the comparison is only reached for a cap
  that is set and non-zero. The result pairs the event as the call leaves it with the
  returned bool (\<open>True\<close> is the spec's Admitted, \<open>False\<close> its Full).
\<close>

definition join_event :: "event \<Rightarrow> int \<Rightarrow> event \<times> bool" where
  "join_event ev u =
     (if (case max_participants ev of
            None \<Rightarrow> False
          | Some n \<Rightarrow> n \<noteq> 0 \<and> int (length (participants ev)) \<ge> n)
      then (ev, False)
      else if u \<notin> set (participants ev)
      then (ev\<lparr>participants := participants ev @ [u]\<rparr>, True)
      else (ev, True))"

text \<open>\<open>leave_event\<close> (lines 208-211): \<open>list.remove\<close> drops the first occurrence.\<close>

definition leave_event :: "event \<Rightarrow> int \<Rightarrow> event" where
  "leave_event ev u =
     (if u \<in> set (participants ev)
      then ev\<lparr>participants := remove1 u (participants ev)\<rparr>
      else ev)"


text \<open>
  The guard of \<open>join_event\<close> on its own: the cap is set, is not \<open>0\<close>, and the
  roster has reached it. An event whose cap is \<open>None\<close> or \<open>0\<close> never satisfies
  it.
\<close>

definition at_capacity :: "event \<Rightarrow> bool" where
  "at_capacity ev =
     (case max_participants ev of
        None \<Rightarrow> False
      | Some n \<Rightarrow> n \<noteq> 0 \<and> int (length (participants ev)) \<ge> n)"

text \<open>A sequence of join and leave calls on one event, applied left to right.\<close>

datatype roster_op = Join int | Leave int

fun apply_roster_op :: "event \<Rightarrow> roster_op \<Rightarrow> event" where
  "apply_roster_op ev (Join u) = fst (join_event ev u)"
| "apply_roster_op ev (Leave u) = leave_event ev u"

fun run_roster_ops :: "event \<Rightarrow> roster_op list \<Rightarrow> event" where
  "run_roster_ops ev [] = ev"
| "run_roster_ops ev (x # xs) = run_roster_ops (apply_roster_op ev x) xs"

text \<open>An event row as \<open>import_meetupshare_event\<close> inserts it, with the given key, date and cap.\<close>

definition sample_event :: "int \<Rightarrow> datetime \<Rightarrow> int option \<Rightarrow> event" where
  "sample_event i d cap =
     \<lparr>id_event = i, title = ''t'', description = ''d'', location = ''l'',
      event_date = d, max_participants = cap, price = None, event_type = ''karaoke'',
      difficulty_level = None, music_genre = None, max_teams = None, team_size = None,
      theme = None, creator_id = 1, participants = [], is_active = True,
      notification_sent = False\<rparr>"

section \<open>Time-windowed queries\<close>

text \<open>
  The persisted state a session reads and writes: the rows of the three tables, in
  row order.
\<close>

record db =
  users :: "user list"
  events :: "event list"
  payments :: "payment list"

text \<open>
  The three queries read \<open>datetime.utcnow()\<close>; the model takes it as the argument
  \<open>now\<close>. Each executes one SELECT and nothing else, so the state it returns is the
  state it was given. \<open>ORDER BY event_date\<close> is a sort on the date, descending for
  \<open>.desc()\<close>; SQL leaves the order of rows with equal dates open, and the model
  keeps them in row order.
\<close>

text \<open>\<open>get_upcoming_events\<close> (lines 217-224).\<close>

definition get_upcoming_events :: "datetime \<Rightarrow> db \<Rightarrow> event list \<times> db" where
  "get_upcoming_events now d =
     (sort_key event_date
        (filter (\<lambda>e. event_date e > now \<and> is_active e = True) (events d)), d)"

text \<open>\<open>get_past_events\<close> (lines 276-292).\<close>

definition get_past_events :: "datetime \<Rightarrow> db \<Rightarrow> event list \<times> db" where
  "get_past_events current_date d =
     (sort_key (\<lambda>e. - event_date e)
        (filter (\<lambda>e. event_date e < current_date \<and> is_active e = True) (events d)), d)"

text \<open>
  \<open>get_events_for_notification\<close> (lines 226-235). SQL's \<open>BETWEEN\<close> includes both
  bounds.
\<close>

definition get_events_for_notification :: "datetime \<Rightarrow> db \<Rightarrow> event list \<times> db" where
  "get_events_for_notification now d =
     (let one_day_from_now = now + one_day
      in (filter (\<lambda>e. (now \<le> event_date e \<and> event_date e \<le> one_day_from_now)
                       \<and> notification_sent e = False
                       \<and> is_active e = True) (events d), d))"

section \<open>Payment reconciliation (bot.py, payments.py)\<close>

text \<open>The exceptions the modelled code can raise.\<close>

datatype py_error =
  NameError | JSONDecodeError | KeyError | TypeError | MultipleResultsFound | InterfaceError
  | OverflowError | SessionError | RowidExhausted

text \<open>
  The value \<open>json.loads\<close> returns, as far as the handler reads it: objects and
  strings. Subscripting an object with a key it lacks raises \<open>KeyError\<close>;
  subscripting a string with a key raises \<open>TypeError\<close>.
\<close>

datatype json = JStr string | JObj "(string \<times> json) list"

fun subscript :: "json \<Rightarrow> string \<Rightarrow> py_error + json" where
  "subscript (JObj kvs) k = (case map_of kvs k of None \<Rightarrow> Inl KeyError | Some v \<Rightarrow> Inr v)"
| "subscript (JStr s) k = Inl TypeError"

text \<open>
  The parts of an incoming \<open>Message\<close> the handlers read: the sender, the text, an
  attached contact and the web-app data (payload in \<open>data\<close>, signature header in
  \<open>button_text\<close>).
\<close>

record tg_user =
  tg_id :: int
  tg_username :: "string option"
  tg_first_name :: string
  tg_last_name :: "string option"

record contact =
  contact_phone_number :: string

record web_app =
  data :: string
  button_text :: string

record message =
  from_user :: tg_user
  message_text :: "string option"
  message_contact :: "contact option"
  web_app_data :: "web_app option"

text \<open>
  \<open>verify_webhook_signature\<close> (payments.py, lines 36-46). The argument
  \<open>construct_event\<close> is Stripe's verification primitive with the shared secret:
  it holds when \<open>stripe.Webhook.construct_event\<close> returns and fails when it raises.
  The payload stands for its encoded bytes.
\<close>

definition verify_webhook_signature ::
    "(string \<Rightarrow> string \<Rightarrow> bool) \<Rightarrow> string \<Rightarrow> string \<Rightarrow> bool" where
  "verify_webhook_signature construct_event payload sig_header =
     (if construct_event payload sig_header then True else False)"

text \<open>
  \<open>update_payment_status\<close> (database.py, lines 262-274). \<open>scalar_one_or_none\<close>
  returns \<open>None\<close> for no matching row, the row for one, and raises for more than
  one (the column carries no uniqueness constraint). The row is changed in place and
  committed.
\<close>

definition update_payment_status ::
    "string \<Rightarrow> string \<Rightarrow> db \<Rightarrow> py_error + (payment option \<times> db)" where
  "update_payment_status spid st d =
     (case filter (\<lambda>p. stripe_payment_id p = spid) (payments d) of
        [] \<Rightarrow> Inr (None, d)
      | [p] \<Rightarrow>
          Inr (Some (p\<lparr>status := st\<rparr>),
               d\<lparr>payments :=
                   map (\<lambda>q. if stripe_payment_id q = spid then q\<lparr>status := st\<rparr> else q)
                     (payments d)\<rparr>)
      | _ \<Rightarrow> Inl MultipleResultsFound)"

text \<open>
  The handlers run inside the transaction \<open>DatabaseMiddleware\<close> opens with
  \<open>async with session.begin()\<close> (database.py, lines 124-134). A \<open>commit\<close> inside a
  handler closes that transaction, and every later statement the handler sends
  through the session raises; \<open>SessionError\<close> stands for that exception.
\<close>

text \<open>
  The call \<open>join_event(session, payment.event, payment.user)\<close> of the handler
  (line 976). It is reached only after \<open>update_payment_status\<close> has committed.
  \<open>payment.event\<close> is a relationship that the query of \<open>update_payment_status\<close>
  has not loaded, so evaluating the argument sends a statement through the session
  and raises before \<open>join_event\<close> is entered: no roster changes. The result is the
  exception raised and the state the call leaves.
\<close>

definition join_payment_event :: "payment \<Rightarrow> db \<Rightarrow> py_error option \<times> db" where
  "join_payment_event payment d = (Some SessionError, d)"

text \<open>
  The names bot.py binds from payments.py (line 64:
  \<open>from payments import create_payment_intent, format_price\<close>). No other statement
  of bot.py binds a name of that module.
\<close>

definition bot_names_from_payments :: "string list" where
  "bot_names_from_payments = [''create_payment_intent'', ''format_price'']"

text \<open>
  The \<open>try\<close> block of \<open>stripe_webhook\<close> (bot.py, lines 954-983), in a module whose
  namespace binds the names \<open>names\<close> from payments.py. Calling a name the module
  does not bind raises \<open>NameError\<close>. \<open>loads\<close> is \<open>json.loads\<close>, \<open>None\<close> where
  it raises. The result is the exception the block raises, if any, and the state
  reached then.
\<close>

definition stripe_webhook_try ::
    "string list \<Rightarrow> (string \<Rightarrow> string \<Rightarrow> bool) \<Rightarrow> (string \<Rightarrow> json option)
       \<Rightarrow> message \<Rightarrow> db \<Rightarrow> py_error option \<times> db" where
  "stripe_webhook_try names construct_event loads message d =
     (case web_app_data message of
        None \<Rightarrow> (None, d)
      | Some w \<Rightarrow>
          (let payload = data w; sig_header = button_text w in
           if ''verify_webhook_signature'' \<notin> set names then (Some NameError, d)
           else if \<not> verify_webhook_signature construct_event payload sig_header
           then (None, d)
           else
             (case loads payload of
                None \<Rightarrow> (Some JSONDecodeError, d)
              | Some event_json \<Rightarrow>
                  (case subscript event_json ''type'' of
                     Inl e \<Rightarrow> (Some e, d)
                   | Inr ty \<Rightarrow>
                       if ty = JStr ''payment_intent.succeeded''
                       then
                         (case subscript event_json ''data'' of
                            Inl e \<Rightarrow> (Some e, d)
                          | Inr dat \<Rightarrow>
                              (case subscript dat ''object'' of
                                 Inl e \<Rightarrow> (Some e, d)
                               | Inr payment_intent \<Rightarrow>
                                   (case subscript payment_intent ''id'' of
                                      Inl e \<Rightarrow> (Some e, d)
                                    | Inr (JObj kvs) \<Rightarrow> (Some InterfaceError, d)
                                    | Inr (JStr payment_intent_id) \<Rightarrow>
                                        (case update_payment_status payment_intent_id
                                                ''succeeded'' d of
                                           Inl e \<Rightarrow> (Some e, d)
                                         | Inr (None, d1) \<Rightarrow> (None, d1)
                                         | Inr (Some payment, d1) \<Rightarrow>
                                             join_payment_event payment d1))))
                       else (None, d)))))"

text \<open>
  \<open>stripe_webhook\<close> in such a module: \<open>except Exception\<close> (line 984) logs whatever
  the block raises and returns, so the call ends with the state reached.
\<close>

definition stripe_webhook_in ::
    "string list \<Rightarrow> (string \<Rightarrow> string \<Rightarrow> bool) \<Rightarrow> (string \<Rightarrow> json option)
       \<Rightarrow> message \<Rightarrow> db \<Rightarrow> db" where
  "stripe_webhook_in names construct_event loads message d =
     snd (stripe_webhook_try names construct_event loads message d)"

text \<open>The handler as bot.py defines it: in bot.py's own namespace.\<close>

definition stripe_webhook ::
    "(string \<Rightarrow> string \<Rightarrow> bool) \<Rightarrow> (string \<Rightarrow> json option) \<Rightarrow> message \<Rightarrow> db \<Rightarrow> db" where
  "stripe_webhook = stripe_webhook_in bot_names_from_payments"

text \<open>A sequence of webhook deliveries, handled one after the other.\<close>

fun run_webhooks ::
    "string list \<Rightarrow> (string \<Rightarrow> string \<Rightarrow> bool) \<Rightarrow> (string \<Rightarrow> json option)
       \<Rightarrow> message list \<Rightarrow> db \<Rightarrow> db" where
  "run_webhooks names construct_event loads [] d = d"
| "run_webhooks names construct_event loads (m # ms) d =
     run_webhooks names construct_event loads ms
       (stripe_webhook_in names construct_event loads m d)"

section \<open>Registration flow (bot.py, states.py)\<close>

text \<open>\<open>class RegistrationStates\<close> (states.py, lines 3-8).\<close>

datatype registration_state =
  waiting_for_language | waiting_for_name | waiting_for_phone
  | waiting_for_country | waiting_for_about

text \<open>
  The \<open>FSMContext\<close> of one user: the current state (\<open>None\<close> when there is no
  session) and the data collected so far. \<open>state.clear()\<close> resets both.
\<close>

record fsm_context =
  fsm_state :: "registration_state option"
  fsm_data :: "string \<rightharpoonup> string"

definition no_session :: fsm_context where
  "no_session = \<lparr>fsm_state = None, fsm_data = Map.empty\<rparr>"

record callback_query =
  callback_from_user :: tg_user
  callback_data :: string

text \<open>
  The columns \<open>id\<close> and \<open>telegram_id\<close> hold signed 64-bit integers; binding a
  Python integer outside that range to a statement raises \<open>OverflowError\<close>.
\<close>

definition in_int64 :: "int \<Rightarrow> bool" where
  "in_int64 n = (- 9223372036854775808 \<le> n \<and> n \<le> 9223372036854775807)"

text \<open>
  The key SQLite gives a new row: \<open>1\<close> in an empty table, else the largest key in
  use plus one. When the largest key is the largest 64-bit integer SQLite looks for
  an unused key at random; the model does not follow that search and gives
  \<open>RowidExhausted\<close>.
\<close>

definition next_rowid :: "int list \<Rightarrow> py_error + int" where
  "next_rowid ks =
     (if ks = [] then Inr 1
      else if fold max ks (hd ks) < 9223372036854775807 then Inr (fold max ks (hd ks) + 1)
      else Inl RowidExhausted)"

text \<open>
  \<open>get_or_create_user\<close> (bot.py, lines 96-118). \<open>telegram_id\<close> is a unique
  column, so at most one row matches. A new row takes the column defaults
  (\<open>language = "en"\<close>, the optional columns \<open>None\<close>) and is committed. The function
  rolls back and re-raises what the statements raise. The result holds the user, the
  state, and whether the call has committed.
\<close>

definition get_or_create_user :: "tg_user \<Rightarrow> db \<Rightarrow> py_error + (user \<times> db \<times> bool)" where
  "get_or_create_user telegram_user d =
     (if \<not> in_int64 (tg_id telegram_user) then Inl OverflowError
      else
        (case find (\<lambda>u. telegram_id u = tg_id telegram_user) (users d) of
           Some u \<Rightarrow> Inr (u, d, False)
         | None \<Rightarrow>
             (case next_rowid (map id_user (users d)) of
                Inl e \<Rightarrow> Inl e
              | Inr k \<Rightarrow>
                  (let u = \<lparr>id_user = k,
                            telegram_id = tg_id telegram_user,
                            username = tg_username telegram_user,
                            first_name = tg_first_name telegram_user,
                            last_name = tg_last_name telegram_user,
                            phone_number = None, real_name = None, country = None,
                            language = ''en'', about = None,
                            registration_complete = False\<rparr>
                   in Inr (u, d\<lparr>users := users d @ [u]\<rparr>, True)))))"

text \<open>
  Assigning to attributes of the loaded user and committing: the row with the user's
  primary key takes the new values.
\<close>

definition commit_user :: "user \<Rightarrow> db \<Rightarrow> db" where
  "commit_user u d = d\<lparr>users := map (\<lambda>x. if id_user x = id_user u then u else x) (users d)\<rparr>"

text \<open>
  The same inside a handler: when \<open>get_or_create_user\<close> has already committed in
  this handler (it inserted the user), the commit of the change has to flush it
  through the closed transaction and raises; the change is not stored.
\<close>

definition commit_user_in :: "bool \<Rightarrow> user \<Rightarrow> db \<Rightarrow> py_error + db" where
  "commit_user_in committed u d =
     (if committed then Inl SessionError else Inr (commit_user u d))"

text \<open>\<open>str.split(sep)\<close> for a one-character separator.\<close>

fun split_on :: "char \<Rightarrow> string \<Rightarrow> string list" where
  "split_on c [] = [[]]"
| "split_on c (x # xs) =
     (if x = c then [] # split_on c xs
      else (case split_on c xs of
              [] \<Rightarrow> [[x]]
            | w # ws \<Rightarrow> (x # w) # ws))"

text \<open>
  \<open>str.lower()\<close> on the texts of the model: the upper-case letters among the code
  points below 256 are \<open>A\<close> to \<open>Z\<close> (65 to 90) and the accented capitals 192 to 214
  and 216 to 222; each has its lower-case form 32 places further on.
\<close>

definition lower_char :: "char \<Rightarrow> char" where
  "lower_char c =
     (let n = (of_char c :: nat)
      in if (65 \<le> n \<and> n \<le> 90) \<or> (192 \<le> n \<and> n \<le> 214) \<or> (216 \<le> n \<and> n \<le> 222)
         then char_of (n + 32) else c)"

definition lower :: "string \<Rightarrow> string" where
  "lower t = map lower_char t"

text \<open>
  The handlers take the message or callback and the pair of the user's FSM context and
  the database, and return that pair as they leave it. Every handler body sits in
  \<open>try ... except Exception\<close>, which answers with an error text, so an exception
  ends the handler with the state reached so far. The replies the handlers send, the
  text lookups and the notification to the administrator are outside the model: they
  are taken to return, and they change neither the FSM context nor the tables.
\<close>

text \<open>\<open>cmd_start\<close> (lines 159-194).\<close>

definition cmd_start :: "message \<Rightarrow> fsm_context \<times> db \<Rightarrow> fsm_context \<times> db" where
  "cmd_start m s =
     (case s of (ctx, d) \<Rightarrow>
        (case get_or_create_user (from_user m) d of
           Inl e \<Rightarrow> (ctx, d)
         | Inr (u, d1, committed) \<Rightarrow>
             if \<not> registration_complete u
             then (no_session\<lparr>fsm_state := Some waiting_for_language\<rparr>, d1)
             else (ctx, d1)))"

text \<open>\<open>cmd_help\<close> (lines 196-210); \<open>text_help\<close> (lines 212-214) calls it.\<close>

definition cmd_help :: "message \<Rightarrow> fsm_context \<times> db \<Rightarrow> fsm_context \<times> db" where
  "cmd_help m s =
     (case s of (ctx, d) \<Rightarrow>
        (case get_or_create_user (from_user m) d of
           Inl e \<Rightarrow> (ctx, d)
         | Inr (u, d1, committed) \<Rightarrow> (ctx, d1)))"

text \<open>
  \<open>process_language_selection\<close> (lines 216-236). \<open>callback.data.split("_")[1]\<close>
  raises \<open>IndexError\<close> when the data holds no underscore. \<open>update_language\<close>
  (database.py, lines 48-55) assigns the language and commits.
\<close>

definition process_language_selection ::
    "callback_query \<Rightarrow> fsm_context \<times> db \<Rightarrow> fsm_context \<times> db" where
  "process_language_selection c s =
     (case s of (ctx, d) \<Rightarrow>
        (case get_or_create_user (callback_from_user c) d of
           Inl e \<Rightarrow> (ctx, d)
         | Inr (u, d1, committed) \<Rightarrow>
             (case split_on CHR ''_'' (callback_data c) of
                w0 # lang # ws \<Rightarrow>
                  (case commit_user_in committed (u\<lparr>language := lang\<rparr>) d1 of
                     Inl e \<Rightarrow> (ctx, d1)
                   | Inr d2 \<Rightarrow>
                       (ctx\<lparr>fsm_state := Some waiting_for_name,
                            fsm_data := (fsm_data ctx)(''language'' \<mapsto> lang)\<rparr>, d2))
              | _ \<Rightarrow> (ctx, d1))))"

text \<open>\<open>process_name\<close> (lines 238-261).\<close>

definition process_name :: "message \<Rightarrow> fsm_context \<times> db \<Rightarrow> fsm_context \<times> db" where
  "process_name m s =
     (case s of (ctx, d) \<Rightarrow>
        (case get_or_create_user (from_user m) d of
           Inl e \<Rightarrow> (ctx, d)
         | Inr (u, d1, committed) \<Rightarrow>
             (case message_text m of
                None \<Rightarrow> (ctx, d1)
              | Some t \<Rightarrow>
                  if t = [] \<or> length t < 2 then (ctx, d1)
                  else
                    (case commit_user_in committed (u\<lparr>real_name := Some t\<rparr>) d1 of
                       Inl e \<Rightarrow> (ctx, d1)
                     | Inr d2 \<Rightarrow> (ctx\<lparr>fsm_state := Some waiting_for_phone\<rparr>, d2)))))"

text \<open>\<open>process_phone\<close> (lines 263-289).\<close>

definition process_phone :: "message \<Rightarrow> fsm_context \<times> db \<Rightarrow> fsm_context \<times> db" where
  "process_phone m s =
     (case s of (ctx, d) \<Rightarrow>
        (case get_or_create_user (from_user m) d of
           Inl e \<Rightarrow> (ctx, d)
         | Inr (u, d1, committed) \<Rightarrow>
             (case message_contact m of
                None \<Rightarrow> (ctx, d1)
              | Some c \<Rightarrow>
                  if contact_phone_number c = [] then (ctx, d1)
                  else
                    (case commit_user_in committed
                            (u\<lparr>phone_number := Some (contact_phone_number c)\<rparr>) d1 of
                       Inl e \<Rightarrow> (ctx, d1)
                     | Inr d2 \<Rightarrow> (ctx\<lparr>fsm_state := Some waiting_for_country\<rparr>, d2)))))"

text \<open>\<open>process_country\<close> (lines 291-314).\<close>

definition process_country :: "message \<Rightarrow> fsm_context \<times> db \<Rightarrow> fsm_context \<times> db" where
  "process_country m s =
     (case s of (ctx, d) \<Rightarrow>
        (case get_or_create_user (from_user m) d of
           Inl e \<Rightarrow> (ctx, d)
         | Inr (u, d1, committed) \<Rightarrow>
             if message_text m = Some ''/skip''
             then
               (case commit_user_in committed (u\<lparr>country := None\<rparr>) d1 of
                  Inl e \<Rightarrow> (ctx, d1)
                | Inr d2 \<Rightarrow> (ctx\<lparr>fsm_state := Some waiting_for_about\<rparr>, d2))
             else
               (case commit_user_in committed (u\<lparr>country := message_text m\<rparr>) d1 of
                  Inl e \<Rightarrow> (ctx, d1)
                | Inr d2 \<Rightarrow> (ctx\<lparr>fsm_state := Some waiting_for_about\<rparr>, d2))))"

text \<open>\<open>process_about\<close> (lines 316-377).\<close>

definition process_about :: "message \<Rightarrow> fsm_context \<times> db \<Rightarrow> fsm_context \<times> db" where
  "process_about m s =
     (case s of (ctx, d) \<Rightarrow>
        (case get_or_create_user (from_user m) d of
           Inl e \<Rightarrow> (ctx, d)
         | Inr (u, d1, committed) \<Rightarrow>
             if message_text m = Some ''/skip''
             then
               (case commit_user_in committed
                       (u\<lparr>about := None, registration_complete := True\<rparr>) d1 of
                  Inl e \<Rightarrow> (ctx, d1)
                | Inr d2 \<Rightarrow> (no_session, d2))
             else
               (case commit_user_in committed
                       (u\<lparr>about := message_text m, registration_complete := True\<rparr>) d1 of
                  Inl e \<Rightarrow> (ctx, d1)
                | Inr d2 \<Rightarrow> (no_session, d2))))"

text \<open>
  The filter of \<open>text_help\<close> (line 212):
  \<open>message.text and message.text.lower() in ['help', ...]\<close>. The second word of the
  list is Cyrillic; no text of the model holds its code points, and \<open>lower\<close> keeps a
  text of the model one, so only \<open>help\<close> can match.
\<close>

definition text_help_filter :: "message \<Rightarrow> bool" where
  "text_help_filter m =
     (case message_text m of
        None \<Rightarrow> False
      | Some t \<Rightarrow> t \<noteq> [] \<and> lower t = ''help'')"

text \<open>
  The dispatcher. The routers are tried in the order \<open>main\<close> includes them (lines
  1178-1179: the administrator's router, then the users' router), and within a
  router the handlers in the order bot.py registers them; the first handler whose
  filter accepts the update takes it. The argument \<open>command\<close> is aiogram's command
  filter: \<open>command name m\<close> holds when \<open>Command(name)\<close> accepts the message \<open>m\<close>,
  and \<open>CommandStart()\<close> is \<open>command ''start''\<close>.

  For a message: \<open>Command("admin")\<close> (line 541) and \<open>Command("import_meetupshare")\<close>
  (line 1130) of the administrator's router, then \<open>CommandStart()\<close> (line 159),
  \<open>Command("help")\<close> (line 196), the help text (line 212), and the state filters of
  \<open>process_name\<close>, \<open>process_phone\<close>, \<open>process_country\<close> and \<open>process_about\<close>
  (lines 238-316). For a button press: the four data filters of the administrator's
  router (lines 552, 561, 607, 639), then \<open>F.data.startswith("lang_")\<close> (line 216).
  \<open>None\<close> stands for an update that goes to a handler outside the registration
  flow.
\<close>

datatype update = Message message | CallbackQuery callback_query

fun dispatch ::
    "(string \<Rightarrow> message \<Rightarrow> bool) \<Rightarrow> update \<Rightarrow> fsm_context \<times> db
       \<Rightarrow> (fsm_context \<times> db) option" where
  "dispatch command (Message m) s =
     (if command ''admin'' m \<or> command ''import_meetupshare'' m then None
      else if command ''start'' m then Some (cmd_start m s)
      else if command ''help'' m then Some (cmd_help m s)
      else if text_help_filter m then Some (cmd_help m s)
      else
        (case fsm_state (fst s) of
           Some waiting_for_name \<Rightarrow> Some (process_name m s)
         | Some waiting_for_phone \<Rightarrow> Some (process_phone m s)
         | Some waiting_for_country \<Rightarrow> Some (process_country m s)
         | Some waiting_for_about \<Rightarrow> Some (process_about m s)
         | _ \<Rightarrow> None))"
| "dispatch command (CallbackQuery c) s =
     (if callback_data c = ''create_broadcast''
         \<or> take 10 (callback_data c) = ''broadcast_''
         \<or> callback_data c = ''list_chats''
         \<or> take 8 (callback_data c) = ''history_''
      then None
      else if take 5 (callback_data c) = ''lang_''
      then Some (process_language_selection c s)
      else None)"

text \<open>
  A message that reaches the state handlers: none of the filters registered before
  them accepts it.
\<close>

definition reaches_state_handlers :: "(string \<Rightarrow> message \<Rightarrow> bool) \<Rightarrow> message \<Rightarrow> bool" where
  "reaches_state_handlers command m =
     (\<not> command ''admin'' m \<and> \<not> command ''import_meetupshare'' m
      \<and> \<not> command ''start'' m \<and> \<not> command ''help'' m \<and> \<not> text_help_filter m)"

text \<open>A message that \<open>cmd_start\<close> takes.\<close>

definition reaches_cmd_start :: "(string \<Rightarrow> message \<Rightarrow> bool) \<Rightarrow> message \<Rightarrow> bool" where
  "reaches_cmd_start command m =
     (\<not> command ''admin'' m \<and> \<not> command ''import_meetupshare'' m \<and> command ''start'' m)"

text \<open>
  A run: the updates are handled one after the other; the result lists the pair of
  FSM context and database after each update.
\<close>

fun run_updates ::
    "(string \<Rightarrow> message \<Rightarrow> bool) \<Rightarrow> update list \<Rightarrow> fsm_context \<times> db
       \<Rightarrow> (fsm_context \<times> db) list option" where
  "run_updates command [] s = Some []"
| "run_updates command (x # xs) s =
     (case dispatch command x s of
        None \<Rightarrow> None
      | Some s1 \<Rightarrow>
          (case run_updates command xs s1 of None \<Rightarrow> None | Some tr \<Rightarrow> Some (s1 # tr)))"

text \<open>The row of the user with a given Telegram id.\<close>

definition user_of :: "int \<Rightarrow> db \<Rightarrow> user option" where
  "user_of tid d = find (\<lambda>u. telegram_id u = tid) (users d)"

text \<open>
  The stored user rows are rows the tables can hold: keys and Telegram ids are
  64-bit, and the largest key is still free to be followed by the next.
\<close>

definition users_storable :: "db \<Rightarrow> bool" where
  "users_storable d =
     list_all (\<lambda>u. in_int64 (id_user u) \<and> in_int64 (telegram_id u)
                   \<and> id_user u < 9223372036854775807) (users d)"

text \<open>Concrete inputs for the examples below.\<close>

definition sample_user :: "int \<Rightarrow> user" where
  "sample_user i =
     \<lparr>id_user = i, telegram_id = 1000 + i, username = None, first_name = ''f'',
      last_name = None, phone_number = None, real_name = None, country = None,
      language = ''en'', about = None, registration_complete = True\<rparr>"

definition sample_payment :: "string \<Rightarrow> payment" where
  "sample_payment st =
     \<lparr>id_payment = 1, stripe_payment_id = ''pi_1'', amount = 4900, currency = ''usd'',
      status = st, user_id = 7, event_id = 1\<rparr>"

text \<open>
  One event with cap \<open>2\<close> and one participant (one slot left), and one payment of
  user \<open>7\<close> for it.
\<close>

definition sample_db :: "string \<Rightarrow> db" where
  "sample_db st =
     \<lparr>users = [sample_user 7, sample_user 8],
      events = [(sample_event 1 0 (Some 2))\<lparr>participants := [8]\<rparr>],
      payments = [sample_payment st]\<rparr>"

definition sample_webhook :: "string \<Rightarrow> string \<Rightarrow> message" where
  "sample_webhook payload sig_header =
     \<lparr>from_user = \<lparr>tg_id = 1, tg_username = None, tg_first_name = ''s'',
                    tg_last_name = None\<rparr>,
      message_text = Some ''/stripe/webhook'', message_contact = None,
      web_app_data = Some \<lparr>data = payload, button_text = sig_header\<rparr>\<rparr>"

text \<open>A verification primitive that accepts exactly the signature header \<open>good\<close>.\<close>

definition sample_construct_event :: "string \<Rightarrow> string \<Rightarrow> bool" where
  "sample_construct_event payload sig_header = (sig_header = ''good'')"

text \<open>
  A parser that knows two payloads: \<open>ok\<close> is a \<open>payment_intent.succeeded\<close>
  envelope for the intent \<open>pi_1\<close>, \<open>ko\<close> a \<open>payment_intent.payment_failed\<close>
  envelope for it.
\<close>

definition sample_loads :: "string \<Rightarrow> json option" where
  "sample_loads payload =
     (if payload = ''ok''
      then Some (JObj [(''type'', JStr ''payment_intent.succeeded''),
                       (''data'', JObj [(''object'', JObj [(''id'', JStr ''pi_1'')])])])
      else if payload = ''ko''
      then Some (JObj [(''type'', JStr ''payment_intent.payment_failed''),
                       (''data'', JObj [(''object'', JObj [(''id'', JStr ''pi_1'')])])])
      else None)"

text \<open>A Telegram user, the messages of a registration run, and an empty database.\<close>

definition sample_tg_user :: tg_user where
  "sample_tg_user =
     \<lparr>tg_id = 42, tg_username = Some ''ann'', tg_first_name = ''Ann'', tg_last_name = None\<rparr>"

definition sample_message :: "string option \<Rightarrow> contact option \<Rightarrow> message" where
  "sample_message txt ct =
     \<lparr>from_user = sample_tg_user, message_text = txt, message_contact = ct,
      web_app_data = None\<rparr>"

definition sample_callback :: "string \<Rightarrow> callback_query" where
  "sample_callback dat = \<lparr>callback_from_user = sample_tg_user, callback_data = dat\<rparr>"

definition empty_db :: db where
  "empty_db = \<lparr>users = [], events = [], payments = []\<rparr>"

text \<open>
  A command filter that accepts exactly the text \<open>/name\<close>. aiogram's filter accepts
  that text too, and none of the other texts of the examples below.
\<close>

definition sample_command :: "string \<Rightarrow> message \<Rightarrow> bool" where
  "sample_command name m = (message_text m = Some (CHR ''/'' # name))"

section \<open>Properties of the roster operations\<close>

lemma join_event_max [simp]: "max_participants (fst (join_event ev u)) = max_participants ev"
  by (simp add: join_event_def)

lemma leave_event_max [simp]: "max_participants (leave_event ev u) = max_participants ev"
  by (simp add: leave_event_def)

lemma apply_roster_op_max [simp]:
  "max_participants (apply_roster_op ev x) = max_participants ev"
  by (cases x) simp_all

lemma join_event_count:
  assumes "max_participants ev = Some n" and "0 < n"
    and "int (length (participants ev)) \<le> n"
  shows "int (length (participants (fst (join_event ev u)))) \<le> n"
  using assms by (auto simp: join_event_def)

lemma leave_event_count:
  "length (participants (leave_event ev u)) \<le> length (participants ev)"
  by (simp add: leave_event_def length_remove1)

lemma apply_roster_op_count:
  assumes "max_participants ev = Some n" and "0 < n"
    and "int (length (participants ev)) \<le> n"
  shows "int (length (participants (apply_roster_op ev x))) \<le> n"
proof (cases x)
  case (Join u)
  with assms show ?thesis by (simp add: join_event_count)
next
  case (Leave u)
  have "length (participants (leave_event ev u)) \<le> length (participants ev)"
    by (rule leave_event_count)
  with assms Leave show ?thesis by simp
qed

lemma run_roster_ops_count:
  assumes "max_participants ev = Some n" and "0 < n"
    and "int (length (participants ev)) \<le> n"
  shows "int (length (participants (run_roster_ops ev xs))) \<le> n"
  using assms
proof (induction xs arbitrary: ev)
  case Nil
  then show ?case by simp
next
  case (Cons x xs)
  have "int (length (participants (apply_roster_op ev x))) \<le> n"
    using Cons.prems by (rule apply_roster_op_count)
  moreover have "max_participants (apply_roster_op ev x) = Some n"
    using Cons.prems(1) by simp
  ultimately show ?case
    using Cons.IH Cons.prems(2) by simp
qed

lemma join_event_distinct:
  "distinct (participants ev) \<Longrightarrow> distinct (participants (fst (join_event ev u)))"
  by (simp add: join_event_def)

text \<open>
  C1 (as the code has it). For an event whose cap is set to a positive \<open>n\<close> and whose
  roster holds at most \<open>n\<close> users, every sequence of join and leave calls keeps the
  count at most \<open>n\<close>; and a join attempted while \<open>n\<close> distinct participants are
  present returns \<open>False\<close> (Full) and leaves the event as it was. A cap of \<open>0\<close> is
  falsy in the guard and is treated as no cap.
\<close>

theorem join_leave_capacity:
  assumes "max_participants ev = Some n" and "0 < n"
    and "int (length (participants ev)) \<le> n"
  shows "int (length (participants (run_roster_ops ev xs))) \<le> n
       \<and> (distinct (participants ev) \<and> int (length (participants ev)) = n
            \<longrightarrow> join_event ev u = (ev, False))"
proof
  show "int (length (participants (run_roster_ops ev xs))) \<le> n"
    using assms by (rule run_roster_ops_count)
next
  show "distinct (participants ev) \<and> int (length (participants ev)) = n
        \<longrightarrow> join_event ev u = (ev, False)"
    using assms(1,2) by (simp add: join_event_def)
qed

theorem join_leave_capacity_witness:
  "int (length (participants
      (run_roster_ops ((sample_event 1 0 (Some 1))\<lparr>participants := [7]\<rparr>)
         [Join 8, Leave 7, Join 8, Join 9]))) \<le> 1
   \<and> join_event ((sample_event 1 0 (Some 1))\<lparr>participants := [7]\<rparr>) 8
       = ((sample_event 1 0 (Some 1))\<lparr>participants := [7]\<rparr>, False)"
proof -
  let ?e = "(sample_event 1 0 (Some 1))\<lparr>participants := [7]\<rparr>"
  have h1: "max_participants ?e = Some 1"
    by (simp add: sample_event_def)
  have h2: "(0::int) < 1"
    by simp
  have h3: "int (length (participants ?e)) \<le> 1"
    by simp
  have d: "distinct (participants ?e) \<and> int (length (participants ?e)) = 1"
    by simp
  from join_leave_capacity [OF h1 h2 h3, of "[Join 8, Leave 7, Join 8, Join 9]" 8] d
  show ?thesis by blast
qed

text \<open>
  C1 as stated fails for the cap \<open>0\<close>: the event starts within its cap (no
  participants), the join returns \<open>True\<close> and the roster then holds one user.
\<close>

theorem join_zero_cap_counterexample:
  "max_participants (sample_event 1 0 (Some 0)) = Some 0
   \<and> int (length (participants (sample_event 1 0 (Some 0)))) \<le> 0
   \<and> join_event (sample_event 1 0 (Some 0)) 7
       = ((sample_event 1 0 (Some 0))\<lparr>participants := [7]\<rparr>, True)
   \<and> \<not> int (length (participants (run_roster_ops (sample_event 1 0 (Some 0)) [Join 7]))) \<le> 0"
  by (simp add: sample_event_def join_event_def)

lemma join_event_cases:
  "join_event ev u =
     (if at_capacity ev then (ev, False)
      else if u \<in> set (participants ev) then (ev, True)
      else (ev\<lparr>participants := participants ev @ [u]\<rparr>, True))"
  by (simp add: join_event_def at_capacity_def)

lemma join_event_member:
  "\<not> at_capacity ev \<Longrightarrow> u \<in> set (participants (fst (join_event ev u)))"
  by (simp add: join_event_cases)

text \<open>
  C6 (as the code has it). A second join by the same user never changes the roster
  the first join left, whatever the event and the user. The second join returns
  \<open>True\<close> (Admitted) exactly when \<open>max_participants\<close> is \<open>None\<close>, or is \<open>0\<close>
  (which the guard treats as no cap), or is greater than the number of participants
  counted with the user included, that is the number before the first join plus one
  if the user was not yet a member. Otherwise the second join returns \<open>False\<close>
  (Full), also when the first join has just admitted the user and thereby filled
  the event: the capacity guard runs before the membership test. The first join
  returns \<open>True\<close> exactly when \<open>max_participants\<close> is \<open>None\<close>, \<open>0\<close>, or greater
  than the number of participants before it.
\<close>

theorem join_event_twice:
  "fst (join_event (fst (join_event ev u)) u) = fst (join_event ev u)
   \<and> snd (join_event (fst (join_event ev u)) u)
       = (case max_participants ev of
            None \<Rightarrow> True
          | Some n \<Rightarrow>
              n = 0 \<or> int (length (participants ev))
                        + (if u \<in> set (participants ev) then 0 else 1) < n)
   \<and> snd (join_event ev u)
       = (case max_participants ev of
            None \<Rightarrow> True
          | Some n \<Rightarrow> n = 0 \<or> int (length (participants ev)) < n)"
  by (auto simp: join_event_def split: option.splits)

text \<open>
  C6 as stated fails on an event with cap \<open>1\<close> and no participants: the first join
  of user \<open>7\<close> is admitted and fills the event, the second join of the same user
  returns \<open>False\<close>.
\<close>

theorem join_event_twice_counterexample:
  "join_event (sample_event 1 0 (Some 1)) 7
     = ((sample_event 1 0 (Some 1))\<lparr>participants := [7]\<rparr>, True)
   \<and> join_event ((sample_event 1 0 (Some 1))\<lparr>participants := [7]\<rparr>) 7
     = ((sample_event 1 0 (Some 1))\<lparr>participants := [7]\<rparr>, False)"
  by (simp add: sample_event_def join_event_def)



section \<open>Properties of the queries\<close>

lemma sorted_descending_sort_key:
  "sorted_wrt (\<lambda>a b. event_date a \<ge> event_date b) (sort_key (\<lambda>e. - event_date e) xs)"
proof -
  have "sorted (map (\<lambda>e. - event_date e) (sort_key (\<lambda>e. - event_date e) xs))"
    by (rule sorted_sort_key)
  then show ?thesis
    by (simp add: sorted_wrt_map)
qed

text \<open>
  C7. \<open>get_upcoming_events\<close> returns exactly the active events dated strictly after
  \<open>now\<close> (each row once), in ascending date order; \<open>get_past_events\<close> returns
  exactly the active events dated strictly before \<open>now\<close>, in descending date order;
  both leave the stored state as it was.
\<close>

theorem upcoming_past_queries:
  "mset (fst (get_upcoming_events now d))
     = filter_mset (\<lambda>e. is_active e \<and> now < event_date e) (mset (events d))
   \<and> sorted (map event_date (fst (get_upcoming_events now d)))
   \<and> snd (get_upcoming_events now d) = d
   \<and> mset (fst (get_past_events now d))
     = filter_mset (\<lambda>e. is_active e \<and> event_date e < now) (mset (events d))
   \<and> sorted_wrt (\<lambda>a b. event_date a \<ge> event_date b) (fst (get_past_events now d))
   \<and> snd (get_past_events now d) = d"
proof -
  have up: "mset (fst (get_upcoming_events now d))
     = filter_mset (\<lambda>e. is_active e \<and> now < event_date e) (mset (events d))"
    by (simp add: get_upcoming_events_def conj_commute)
  have up_sorted: "sorted (map event_date (fst (get_upcoming_events now d)))"
    by (simp add: get_upcoming_events_def)
  have past: "mset (fst (get_past_events now d))
     = filter_mset (\<lambda>e. is_active e \<and> event_date e < now) (mset (events d))"
    by (simp add: get_past_events_def conj_commute)
  have past_sorted:
    "sorted_wrt (\<lambda>a b. event_date a \<ge> event_date b) (fst (get_past_events now d))"
    by (simp add: get_past_events_def sorted_descending_sort_key)
  show ?thesis
    using up up_sorted past past_sorted
    by (simp add: get_upcoming_events_def get_past_events_def)
qed

text \<open>
  C8 (as the code has it). \<open>get_events_for_notification\<close> returns exactly the
  events that are active, not yet notified, and dated in the closed interval from
  \<open>now\<close> to \<open>now\<close> plus one day: both bounds are included. The state is left as
  it was.
\<close>

theorem notification_query_closed_interval:
  "mset (fst (get_events_for_notification now d))
     = filter_mset (\<lambda>e. is_active e \<and> \<not> notification_sent e
                        \<and> now \<le> event_date e \<and> event_date e \<le> now + one_day)
         (mset (events d))
   \<and> snd (get_events_for_notification now d) = d"
proof -
  have "filter_mset (\<lambda>e. (now \<le> event_date e \<and> event_date e \<le> now + one_day)
                          \<and> notification_sent e = False \<and> is_active e = True)
          (mset (events d))
      = filter_mset (\<lambda>e. is_active e \<and> \<not> notification_sent e
                          \<and> now \<le> event_date e \<and> event_date e \<le> now + one_day)
          (mset (events d))"
    by (rule filter_mset_cong) auto
  then show ?thesis
    by (simp add: get_events_for_notification_def)
qed

text \<open>
  C8 as stated fails at the upper bound: with \<open>now = 0\<close>, an active, not yet
  notified event dated exactly one day later is returned.
\<close>

theorem notification_upper_bound_counterexample:
  "event_date (sample_event 1 one_day None) = 0 + one_day
   \<and> fst (get_events_for_notification 0
            \<lparr>users = [], events = [sample_event 1 one_day None], payments = []\<rparr>)
     = [sample_event 1 one_day None]"
  by (simp add: get_events_for_notification_def sample_event_def one_day_def)

section \<open>Properties of payment reconciliation\<close>

lemma stripe_webhook_in_unbound:
  "''verify_webhook_signature'' \<notin> set names \<Longrightarrow>
   stripe_webhook_in names construct_event loads m d = d"
  by (simp add: stripe_webhook_in_def stripe_webhook_try_def split: option.splits)

lemma stripe_webhook_noop: "stripe_webhook construct_event loads m d = d"
  by (simp add: stripe_webhook_def stripe_webhook_in_unbound bot_names_from_payments_def)

lemma run_webhooks_unbound:
  "''verify_webhook_signature'' \<notin> set names \<Longrightarrow>
   run_webhooks names construct_event loads ms d = d"
  by (induction ms arbitrary: d) (simp_all add: stripe_webhook_in_unbound)

text \<open>
  C2. A webhook call whose payload fails signature verification changes nothing: the
  database the handler leaves is the database it was given, so no payment changes
  status and no roster gains a user. This holds in every module namespace, and so in
  bot.py's own.
\<close>

theorem invalid_signature_noop:
  assumes "web_app_data m = Some w"
    and "\<not> verify_webhook_signature construct_event (data w) (button_text w)"
  shows "stripe_webhook_in names construct_event loads m d = d
       \<and> stripe_webhook construct_event loads m d = d"
  using assms
  by (simp add: stripe_webhook_in_def stripe_webhook_try_def stripe_webhook_noop Let_def)

theorem invalid_signature_noop_witness:
  "\<not> verify_webhook_signature sample_construct_event ''ok'' ''bad''
   \<and> stripe_webhook_in (''verify_webhook_signature'' # bot_names_from_payments)
         sample_construct_event sample_loads (sample_webhook ''ok'' ''bad'') (sample_db ''pending'')
       = sample_db ''pending''
   \<and> stripe_webhook sample_construct_event sample_loads (sample_webhook ''ok'' ''bad'')
         (sample_db ''pending'')
       = sample_db ''pending''"
proof -
  have h1: "web_app_data (sample_webhook ''ok'' ''bad'') = Some \<lparr>data = ''ok'', button_text = ''bad''\<rparr>"
    by (simp add: sample_webhook_def)
  have h2: "\<not> verify_webhook_signature sample_construct_event
               (data \<lparr>data = ''ok'', button_text = ''bad''\<rparr>)
               (button_text \<lparr>data = ''ok'', button_text = ''bad''\<rparr>)"
    by (simp add: verify_webhook_signature_def sample_construct_event_def)
  from invalid_signature_noop [OF h1 h2] h2 show ?thesis
    by simp
qed

text \<open>
  In a namespace that binds \<open>verify_webhook_signature\<close>, a verified
  \<open>payment_intent.succeeded\<close> envelope whose intent id names exactly one payment
  sets that payment to \<open>succeeded\<close>, and the block then raises at the join: the
  events are as they were.
\<close>

lemma reconcile_succeeded_bound:
  assumes "''verify_webhook_signature'' \<in> set names"
    and "web_app_data m = Some w"
    and "verify_webhook_signature construct_event (data w) (button_text w)"
    and "loads (data w) = Some event_json"
    and "subscript event_json ''type'' = Inr (JStr ''payment_intent.succeeded'')"
    and "subscript event_json ''data'' = Inr dat"
    and "subscript dat ''object'' = Inr payment_intent"
    and "subscript payment_intent ''id'' = Inr (JStr s)"
    and "filter (\<lambda>p. stripe_payment_id p = s) (payments d) = [p]"
  shows "stripe_webhook_try names construct_event loads m d
       = (Some SessionError,
          d\<lparr>payments :=
              map (\<lambda>q. if stripe_payment_id q = s then q\<lparr>status := ''succeeded''\<rparr> else q)
                (payments d)\<rparr>)"
proof -
  have upd: "update_payment_status s ''succeeded'' d
      = Inr (Some (p\<lparr>status := ''succeeded''\<rparr>),
             d\<lparr>payments :=
                 map (\<lambda>q. if stripe_payment_id q = s then q\<lparr>status := ''succeeded''\<rparr> else q)
                   (payments d)\<rparr>)"
    using assms(9) by (simp add: update_payment_status_def)
  show ?thesis
    using assms(1-8)
    by (simp add: stripe_webhook_try_def Let_def upd join_payment_event_def)
qed

text \<open>
  C3. The handler as bot.py defines it, on a verified \<open>payment_intent.succeeded\<close>
  envelope for the pending payment of user \<open>7\<close> for an event with one slot left:
  the name \<open>verify_webhook_signature\<close> is not bound in bot.py, the call at line 962
  raises \<open>NameError\<close>, and the database stays as it was: the payment is still
  pending and the roster is still \<open>[8]\<close>. In a namespace that binds the name, the
  same call sets the payment to \<open>succeeded\<close> and then raises at the join of line
  976, so the roster is still \<open>[8]\<close> there too.
\<close>

theorem reconcile_succeeded_not_applied:
  "verify_webhook_signature sample_construct_event ''ok'' ''good''
   \<and> stripe_webhook_try bot_names_from_payments sample_construct_event sample_loads
         (sample_webhook ''ok'' ''good'') (sample_db ''pending'')
       = (Some NameError, sample_db ''pending'')
   \<and> stripe_webhook sample_construct_event sample_loads (sample_webhook ''ok'' ''good'')
         (sample_db ''pending'')
       = sample_db ''pending''
   \<and> map status (payments (sample_db ''pending'')) = [''pending'']
   \<and> map participants (events (sample_db ''pending'')) = [[8]]
   \<and> stripe_webhook_try (''verify_webhook_signature'' # bot_names_from_payments)
         sample_construct_event sample_loads (sample_webhook ''ok'' ''good'') (sample_db ''pending'')
       = (Some SessionError, sample_db ''succeeded'')
   \<and> map participants (events (sample_db ''succeeded'')) = [[8]]"
proof -
  have a: "verify_webhook_signature sample_construct_event ''ok'' ''good''"
    by (simp add: verify_webhook_signature_def sample_construct_event_def)
  have b: "map status (payments (sample_db ''pending'')) = [''pending'']"
    by (simp add: sample_db_def sample_payment_def)
  have c: "map participants (events (sample_db st)) = [[8]]" for st
    by (simp add: sample_db_def)
  have w: "web_app_data (sample_webhook ''ok'' ''good'')
      = Some \<lparr>data = ''ok'', button_text = ''good''\<rparr>"
    by (simp add: sample_webhook_def)
  have d: "stripe_webhook_try (''verify_webhook_signature'' # bot_names_from_payments)
         sample_construct_event sample_loads (sample_webhook ''ok'' ''good'') (sample_db ''pending'')
       = (Some SessionError, sample_db ''succeeded'')"
    by (simp add: stripe_webhook_try_def w a sample_loads_def update_payment_status_def
          join_payment_event_def sample_db_def sample_payment_def)
  have e: "stripe_webhook_try bot_names_from_payments sample_construct_event sample_loads
         (sample_webhook ''ok'' ''good'') (sample_db ''pending'')
       = (Some NameError, sample_db ''pending'')"
    by (simp add: stripe_webhook_try_def w bot_names_from_payments_def)
  show ?thesis
    using a b c d e by (simp add: stripe_webhook_noop)
qed

lemma payments_join_payment_event [simp]:
  "payments (snd (join_payment_event p d)) = payments d"
  by (simp add: join_payment_event_def split: option.splits)

lemma payments_update_payment_status:
  "update_payment_status s st d = Inr (r, d1) \<Longrightarrow>
   payments d1 = payments d \<or>
   payments d1 = map (\<lambda>q. if stripe_payment_id q = s then q\<lparr>status := st\<rparr> else q) (payments d)"
  by (auto simp: update_payment_status_def split: list.splits)

lemma payments_stripe_webhook_in:
  "payments (stripe_webhook_in names construct_event loads m d) = payments d \<or>
   (\<exists>s. payments (stripe_webhook_in names construct_event loads m d)
        = map (\<lambda>q. if stripe_payment_id q = s then q\<lparr>status := ''succeeded''\<rparr> else q)
            (payments d))"
  by (auto simp: stripe_webhook_in_def stripe_webhook_try_def Let_def
           split: option.splits sum.splits json.splits prod.splits
           dest: payments_update_payment_status)

lemma status_kept_step:
  assumes "i < length (payments d)" and "status (payments d ! i) = ''succeeded''"
  shows "length (payments (stripe_webhook_in names construct_event loads m d)) = length (payments d)
       \<and> status (payments (stripe_webhook_in names construct_event loads m d) ! i) = ''succeeded''"
  using payments_stripe_webhook_in [of names construct_event loads m d] assms
  by auto

lemma length_payments_stripe_webhook_in:
  "length (payments (stripe_webhook_in names construct_event loads m d)) = length (payments d)"
  using payments_stripe_webhook_in [of names construct_event loads m d] by auto

lemma run_webhooks_succeeded:
  "length (payments (run_webhooks names construct_event loads ms d)) = length (payments d)
   \<and> (\<forall>i < length (payments d).
         status (payments d ! i) = ''succeeded'' \<longrightarrow>
         status (payments (run_webhooks names construct_event loads ms d) ! i) = ''succeeded'')"
proof (induction ms arbitrary: d)
  case Nil
  show ?case by simp
next
  case (Cons m ms)
  let ?d1 = "stripe_webhook_in names construct_event loads m d"
  have len: "length (payments ?d1) = length (payments d)"
    by (rule length_payments_stripe_webhook_in)
  have step: "\<forall>i < length (payments d).
      status (payments d ! i) = ''succeeded'' \<longrightarrow> status (payments ?d1 ! i) = ''succeeded''"
    using status_kept_step by blast
  from Cons.IH [of ?d1] len step show ?case
    by simp
qed

text \<open>
  C4. Over any sequence of webhook deliveries (duplicates included) the payments table
  keeps its rows; a payment whose status is \<open>succeeded\<close> still has it afterwards,
  in every module namespace, because \<open>succeeded\<close> is the only status the handler
  writes; and in bot.py's own namespace a payment whose status is \<open>succeeded\<close> or
  \<open>failed\<close> keeps that status.
\<close>

theorem terminal_status_kept:
  "length (payments (run_webhooks names construct_event loads ms d)) = length (payments d)
   \<and> (\<forall>i < length (payments d).
         status (payments d ! i) = ''succeeded'' \<longrightarrow>
         status (payments (run_webhooks names construct_event loads ms d) ! i) = ''succeeded'')
   \<and> (\<forall>i < length (payments d).
         status (payments d ! i) \<in> {''succeeded'', ''failed''} \<longrightarrow>
         status (payments (run_webhooks bot_names_from_payments construct_event loads ms d) ! i)
           = status (payments d ! i))"
proof -
  have "run_webhooks bot_names_from_payments construct_event loads ms d = d"
    by (rule run_webhooks_unbound) (simp add: bot_names_from_payments_def)
  then show ?thesis
    using run_webhooks_succeeded [of names construct_event loads ms d] by simp
qed

theorem terminal_status_kept_witness:
  "status (payments (sample_db ''succeeded'') ! 0) = ''succeeded''
   \<and> status (payments (run_webhooks (''verify_webhook_signature'' # bot_names_from_payments)
        sample_construct_event sample_loads
        [sample_webhook ''ok'' ''good'', sample_webhook ''ok'' ''good'']
        (sample_db ''succeeded'')) ! 0) = ''succeeded''
   \<and> status (payments (run_webhooks bot_names_from_payments
        sample_construct_event sample_loads
        [sample_webhook ''ok'' ''good'', sample_webhook ''ok'' ''good'']
        (sample_db ''succeeded'')) ! 0) = ''succeeded''"
proof -
  have h: "0 < length (payments (sample_db ''succeeded''))"
    by (simp add: sample_db_def)
  have s: "status (payments (sample_db ''succeeded'') ! 0) = ''succeeded''"
    by (simp add: sample_db_def sample_payment_def)
  from terminal_status_kept
         [of "''verify_webhook_signature'' # bot_names_from_payments"
             sample_construct_event sample_loads
             "[sample_webhook ''ok'' ''good'', sample_webhook ''ok'' ''good'']"
             "sample_db ''succeeded''"]
       h s
  show ?thesis by auto
qed

text \<open>
  C5 (as the code has it). A webhook call whose payload parses to an envelope with any
  type other than \<open>payment_intent.succeeded\<close> changes nothing: every payment keeps
  the status it had (a pending payment stays pending) and no roster gains a user.
  The handler has no branch that writes \<open>failed\<close>.
\<close>

theorem other_status_noop:
  assumes "web_app_data m = Some w"
    and "loads (data w) = Some event_json"
    and "subscript event_json ''type'' \<noteq> Inr (JStr ''payment_intent.succeeded'')"
  shows "stripe_webhook_in names construct_event loads m d = d
       \<and> stripe_webhook construct_event loads m d = d"
  using assms
  by (auto simp: stripe_webhook_in_def stripe_webhook_try_def stripe_webhook_noop Let_def
           split: sum.splits)

theorem other_status_noop_witness:
  "verify_webhook_signature sample_construct_event ''ko'' ''good''
   \<and> stripe_webhook_in (''verify_webhook_signature'' # bot_names_from_payments)
         sample_construct_event sample_loads (sample_webhook ''ko'' ''good'') (sample_db ''pending'')
       = sample_db ''pending''
   \<and> stripe_webhook sample_construct_event sample_loads (sample_webhook ''ko'' ''good'')
         (sample_db ''pending'')
       = sample_db ''pending''"
proof -
  let ?j = "JObj [(''type'', JStr ''payment_intent.payment_failed''),
                  (''data'', JObj [(''object'', JObj [(''id'', JStr ''pi_1'')])])]"
  have h1: "web_app_data (sample_webhook ''ko'' ''good'') = Some \<lparr>data = ''ko'', button_text = ''good''\<rparr>"
    by (simp add: sample_webhook_def)
  have h2: "sample_loads (data \<lparr>data = ''ko'', button_text = ''good''\<rparr>) = Some ?j"
    by (simp add: sample_loads_def)
  have h3: "subscript ?j ''type'' \<noteq> Inr (JStr ''payment_intent.succeeded'')"
    by simp
  have a: "verify_webhook_signature sample_construct_event ''ko'' ''good''"
    by (simp add: verify_webhook_signature_def sample_construct_event_def)
  from other_status_noop [where loads = sample_loads, OF h1 h2 h3] a show ?thesis
    by simp
qed

text \<open>
  C5 as stated fails: a verified \<open>payment_intent.payment_failed\<close> envelope for the
  intent of a pending payment leaves that payment pending, in bot.py's namespace and
  also in a namespace that binds \<open>verify_webhook_signature\<close>.
\<close>

theorem other_status_counterexample:
  "verify_webhook_signature sample_construct_event ''ko'' ''good''
   \<and> map status (payments (sample_db ''pending'')) = [''pending'']
   \<and> map status (payments (stripe_webhook sample_construct_event sample_loads
          (sample_webhook ''ko'' ''good'') (sample_db ''pending''))) = [''pending'']
   \<and> map status (payments (stripe_webhook_in (''verify_webhook_signature'' # bot_names_from_payments)
          sample_construct_event sample_loads
          (sample_webhook ''ko'' ''good'') (sample_db ''pending''))) = [''pending'']"
  by (simp add: stripe_webhook_def stripe_webhook_in_def stripe_webhook_try_def
        verify_webhook_signature_def sample_construct_event_def sample_loads_def sample_webhook_def sample_db_def
        sample_payment_def bot_names_from_payments_def)

section \<open>Properties of the registration flow\<close>

lemma find_snoc:
  "find P (xs @ [x]) = (case find P xs of Some y \<Rightarrow> Some y | None \<Rightarrow> if P x then Some x else None)"
  by (induction xs) auto

lemma user_of_telegram_id: "user_of tid d = Some u \<Longrightarrow> telegram_id u = tid"
  by (auto simp: user_of_def find_Some_iff)

lemma next_rowid_storable:
  assumes "users_storable d"
  shows "\<exists>k. next_rowid (map id_user (users d)) = Inr k"
proof (cases "users d")
  case Nil
  then show ?thesis by (simp add: next_rowid_def)
next
  case (Cons x xs)
  let ?ks = "map id_user (users d)"
  have ne: "?ks \<noteq> []"
    using Cons by simp
  have "fold max ?ks (hd ?ks) = Max (set (hd ?ks # ?ks))"
    by (simp only: Max.set_eq_fold)
  also have "\<dots> = Max (set ?ks)"
    using ne by (cases ?ks) (simp_all add: insert_absorb)
  finally have m: "fold max ?ks (hd ?ks) = Max (set ?ks)" .
  have "\<forall>k \<in> set ?ks. k < 9223372036854775807"
    using assms by (auto simp: users_storable_def list_all_iff)
  then have "Max (set ?ks) < 9223372036854775807"
    using ne by simp
  with m ne show ?thesis
    by (simp add: next_rowid_def)
qed

lemma get_or_create_user_existing:
  "in_int64 (tg_id t) \<Longrightarrow> user_of (tg_id t) d = Some u \<Longrightarrow>
   get_or_create_user t d = Inr (u, d, False)"
  by (simp add: get_or_create_user_def user_of_def)

lemma get_or_create_user_new:
  assumes "in_int64 (tg_id t)" and "users_storable d" and "user_of (tg_id t) d = None"
  shows "\<exists>u d1. get_or_create_user t d = Inr (u, d1, True)
           \<and> user_of (tg_id t) d1 = Some u \<and> \<not> registration_complete u"
proof -
  obtain k where "next_rowid (map id_user (users d)) = Inr k"
    using next_rowid_storable [OF assms(2)] by blast
  with assms(1,3) show ?thesis
    by (simp add: get_or_create_user_def user_of_def find_snoc Let_def)
qed

lemma user_of_commit_user:
  assumes "user_of tid d = Some u" and "id_user u' = id_user u" and "telegram_id u' = tid"
  shows "user_of tid (commit_user u' d) = Some u'"
proof -
  have "find (\<lambda>x. telegram_id x = tid) xs = Some u \<Longrightarrow>
        find (\<lambda>x. telegram_id x = tid) (map (\<lambda>x. if id_user x = id_user u' then u' else x) xs)
          = Some u'" for xs
    using assms(2,3) by (induction xs) (auto split: if_splits)
  with assms(1) show ?thesis
    by (simp add: user_of_def commit_user_def)
qed

lemma split_on_nonempty: "split_on c s \<noteq> []"
  by (induction s) (auto split: list.splits)

lemma split_on_lang:
  "\<exists>lang ws. split_on CHR ''_'' (''lang_'' @ l) = ''lang'' # lang # ws"
proof -
  obtain w ws where "split_on CHR ''_'' l = w # ws"
    using split_on_nonempty [of "CHR ''_''" l] by (cases "split_on CHR ''_'' l") auto
  then show ?thesis by simp
qed

lemma step_start:
  assumes "case user_of (tg_id (from_user m)) d of
             None \<Rightarrow> True | Some u \<Rightarrow> \<not> registration_complete u"
    and "in_int64 (tg_id (from_user m))" and "users_storable d"
  shows "\<exists>u d1. cmd_start m (ctx, d) = (no_session\<lparr>fsm_state := Some waiting_for_language\<rparr>, d1)
           \<and> user_of (tg_id (from_user m)) d1 = Some u"
proof (cases "user_of (tg_id (from_user m)) d")
  case None
  then obtain u d1 where "get_or_create_user (from_user m) d = Inr (u, d1, True)"
      and "user_of (tg_id (from_user m)) d1 = Some u" and "\<not> registration_complete u"
    using get_or_create_user_new [OF assms(2,3)] by blast
  then show ?thesis
    by (simp add: cmd_start_def)
next
  case (Some u)
  then have "get_or_create_user (from_user m) d = Inr (u, d, False)"
    using assms(2) by (simp add: get_or_create_user_existing)
  with Some assms(1) show ?thesis
    by (simp add: cmd_start_def)
qed

lemma step_language:
  assumes "user_of (tg_id (callback_from_user c)) d = Some u"
    and "in_int64 (tg_id (callback_from_user c))"
    and "callback_data c = ''lang_'' @ l"
  shows "\<exists>lang. process_language_selection c (ctx, d)
           = (ctx\<lparr>fsm_state := Some waiting_for_name,
                  fsm_data := (fsm_data ctx)(''language'' \<mapsto> lang)\<rparr>,
              commit_user (u\<lparr>language := lang\<rparr>) d)"
proof -
  obtain lang ws where "split_on CHR ''_'' (callback_data c) = ''lang'' # lang # ws"
    using split_on_lang [of l] assms(3) by auto
  then have "process_language_selection c (ctx, d)
           = (ctx\<lparr>fsm_state := Some waiting_for_name,
                  fsm_data := (fsm_data ctx)(''language'' \<mapsto> lang)\<rparr>,
              commit_user (u\<lparr>language := lang\<rparr>) d)"
    using get_or_create_user_existing [OF assms(2,1)]
    by (simp add: process_language_selection_def commit_user_in_def)
  then show ?thesis
    by blast
qed

lemma step_name:
  assumes "user_of (tg_id (from_user m)) d = Some u" and "in_int64 (tg_id (from_user m))"
    and "message_text m = Some name" and "2 \<le> length name"
  shows "process_name m (ctx, d)
           = (ctx\<lparr>fsm_state := Some waiting_for_phone\<rparr>,
              commit_user (u\<lparr>real_name := Some name\<rparr>) d)"
  using assms(3,4) get_or_create_user_existing [OF assms(2,1)]
  by (auto simp: process_name_def commit_user_in_def)

lemma step_phone:
  assumes "user_of (tg_id (from_user m)) d = Some u" and "in_int64 (tg_id (from_user m))"
    and "message_contact m = Some ct" and "contact_phone_number ct \<noteq> []"
  shows "process_phone m (ctx, d)
           = (ctx\<lparr>fsm_state := Some waiting_for_country\<rparr>,
              commit_user (u\<lparr>phone_number := Some (contact_phone_number ct)\<rparr>) d)"
  using assms(3,4) get_or_create_user_existing [OF assms(2,1)]
  by (simp add: process_phone_def commit_user_in_def)

lemma step_country_skip:
  assumes "user_of (tg_id (from_user m)) d = Some u" and "in_int64 (tg_id (from_user m))"
    and "message_text m = Some ''/skip''"
  shows "process_country m (ctx, d)
           = (ctx\<lparr>fsm_state := Some waiting_for_about\<rparr>, commit_user (u\<lparr>country := None\<rparr>) d)"
  using assms(3) get_or_create_user_existing [OF assms(2,1)]
  by (simp add: process_country_def commit_user_in_def)

lemma step_about_skip:
  assumes "user_of (tg_id (from_user m)) d = Some u" and "in_int64 (tg_id (from_user m))"
    and "message_text m = Some ''/skip''"
  shows "process_about m (ctx, d)
           = (no_session, commit_user (u\<lparr>about := None, registration_complete := True\<rparr>) d)"
  using assms(3) get_or_create_user_existing [OF assms(2,1)]
  by (simp add: process_about_def commit_user_in_def)

lemma dispatch_state_handler:
  "reaches_state_handlers command m \<Longrightarrow>
   dispatch command (Message m) s =
     (case fsm_state (fst s) of
        Some waiting_for_name \<Rightarrow> Some (process_name m s)
      | Some waiting_for_phone \<Rightarrow> Some (process_phone m s)
      | Some waiting_for_country \<Rightarrow> Some (process_country m s)
      | Some waiting_for_about \<Rightarrow> Some (process_about m s)
      | _ \<Rightarrow> None)"
  by (simp add: reaches_state_handlers_def)

lemma dispatch_cmd_start:
  "reaches_cmd_start command m \<Longrightarrow> dispatch command (Message m) s = Some (cmd_start m s)"
  by (simp add: reaches_cmd_start_def)

lemma dispatch_language:
  "callback_data c = ''lang_'' @ l \<Longrightarrow>
   dispatch command (CallbackQuery c) s = Some (process_language_selection c s)"
  by simp

text \<open>
  C9 (as the code has it). For a Telegram user who is not yet registered, whose id
  fits the 64-bit column, on stored user rows the tables can hold, and starting from
  no session: the run of a \<open>/start\<close> message that \<open>cmd_start\<close> takes, a language
  button, a name of at least two characters, a contact with a phone number,
  \<open>/skip\<close> for the country and \<open>/skip\<close> for the about text, where none of the four
  messages after \<open>/start\<close> is accepted by a filter registered before the state
  handlers (the commands \<open>admin\<close>, \<open>import_meetupshare\<close>, \<open>start\<close>, \<open>help\<close> and
  the help text), is handled to the end; the FSM state after the successive updates
  is \<open>waiting_for_language\<close>, \<open>waiting_for_name\<close>, \<open>waiting_for_phone\<close>,
  \<open>waiting_for_country\<close>, \<open>waiting_for_about\<close> and then none; the session is
  cleared; and the user's row has \<open>registration_complete\<close> set and \<open>country\<close> and
  \<open>about\<close> \<open>None\<close>.
\<close>

theorem registration_run:
  assumes fresh: "case user_of (tg_id t) d of None \<Rightarrow> True | Some u \<Rightarrow> \<not> registration_complete u"
    and range: "in_int64 (tg_id t)"
    and storable: "users_storable d"
    and start: "from_user m0 = t" "reaches_cmd_start command m0"
    and lang: "callback_from_user c = t" "callback_data c = ''lang_'' @ l"
    and name: "from_user mn = t" "message_text mn = Some name" "2 \<le> length name"
      "reaches_state_handlers command mn"
    and phone: "from_user mp = t" "message_contact mp = Some ct" "contact_phone_number ct \<noteq> []"
      "reaches_state_handlers command mp"
    and skip_country: "from_user mc = t" "message_text mc = Some ''/skip''"
      "reaches_state_handlers command mc"
    and skip_about: "from_user ma = t" "message_text ma = Some ''/skip''"
      "reaches_state_handlers command ma"
  shows "\<exists>tr u. run_updates command
             [Message m0, CallbackQuery c, Message mn, Message mp, Message mc, Message ma]
             (no_session, d) = Some tr
         \<and> map (\<lambda>s. fsm_state (fst s)) tr
             = [Some waiting_for_language, Some waiting_for_name, Some waiting_for_phone,
                Some waiting_for_country, Some waiting_for_about, None]
         \<and> fst (last tr) = no_session
         \<and> user_of (tg_id t) (snd (last tr)) = Some u
         \<and> registration_complete u \<and> country u = None \<and> about u = None"
proof -
  let ?tid = "tg_id t"
  obtain u0 d0 where s1: "cmd_start m0 (no_session, d)
        = (no_session\<lparr>fsm_state := Some waiting_for_language\<rparr>, d0)"
      and u0: "user_of ?tid d0 = Some u0"
    using step_start [of m0 d no_session] fresh range storable start(1) by auto
  let ?c1 = "no_session\<lparr>fsm_state := Some waiting_for_language\<rparr>"
  obtain lg where s2: "process_language_selection c (?c1, d0)
        = (?c1\<lparr>fsm_state := Some waiting_for_name,
                fsm_data := (fsm_data ?c1)(''language'' \<mapsto> lg)\<rparr>,
           commit_user (u0\<lparr>language := lg\<rparr>) d0)"
    using step_language [of c d0 u0 l ?c1] u0 range lang by auto
  let ?c2 = "?c1\<lparr>fsm_state := Some waiting_for_name,
                 fsm_data := (fsm_data ?c1)(''language'' \<mapsto> lg)\<rparr>"
  let ?u2 = "u0\<lparr>language := lg\<rparr>" let ?d2 = "commit_user ?u2 d0"
  have tid0: "telegram_id u0 = ?tid"
    using u0 by (rule user_of_telegram_id)
  have u2: "user_of ?tid ?d2 = Some ?u2"
    using u0 tid0 by (simp add: user_of_commit_user)
  let ?c3 = "?c2\<lparr>fsm_state := Some waiting_for_phone\<rparr>"
  let ?u3 = "?u2\<lparr>real_name := Some name\<rparr>" let ?d3 = "commit_user ?u3 ?d2"
  have s3: "process_name mn (?c2, ?d2) = (?c3, ?d3)"
    using step_name [of mn ?d2 ?u2 name ?c2] u2 range name(1,2,3) by simp
  have u3: "user_of ?tid ?d3 = Some ?u3"
    using u2 tid0 by (simp add: user_of_commit_user)
  let ?c4 = "?c3\<lparr>fsm_state := Some waiting_for_country\<rparr>"
  let ?u4 = "?u3\<lparr>phone_number := Some (contact_phone_number ct)\<rparr>"
  let ?d4 = "commit_user ?u4 ?d3"
  have s4: "process_phone mp (?c3, ?d3) = (?c4, ?d4)"
    using step_phone [of mp ?d3 ?u3 ct ?c3] u3 range phone(1,2,3) by simp
  have u4: "user_of ?tid ?d4 = Some ?u4"
    using u3 tid0 by (simp add: user_of_commit_user)
  let ?c5 = "?c4\<lparr>fsm_state := Some waiting_for_about\<rparr>"
  let ?u5 = "?u4\<lparr>country := None\<rparr>" let ?d5 = "commit_user ?u5 ?d4"
  have s5: "process_country mc (?c4, ?d4) = (?c5, ?d5)"
    using step_country_skip [of mc ?d4 ?u4 ?c4] u4 range skip_country(1,2) by simp
  have u5: "user_of ?tid ?d5 = Some ?u5"
    using u4 tid0 by (simp add: user_of_commit_user)
  let ?u6 = "?u5\<lparr>about := None, registration_complete := True\<rparr>"
  let ?d6 = "commit_user ?u6 ?d5"
  have s6: "process_about ma (?c5, ?d5) = (no_session, ?d6)"
    using step_about_skip [of ma ?d5 ?u5 ?c5] u5 range skip_about(1,2) by simp
  have u6: "user_of ?tid ?d6 = Some ?u6"
    using u5 tid0 by (simp add: user_of_commit_user)
  have r1: "dispatch command (Message m0) (no_session, d) = Some (?c1, d0)"
    using s1 start(2) by (simp only: dispatch_cmd_start)
  have r2: "dispatch command (CallbackQuery c) (?c1, d0) = Some (?c2, ?d2)"
    using s2 lang(2) by (simp only: dispatch_language)
  have r3: "dispatch command (Message mn) (?c2, ?d2) = Some (?c3, ?d3)"
    using s3 by (simp add: dispatch_state_handler [OF name(4)] del: dispatch.simps)
  have r4: "dispatch command (Message mp) (?c3, ?d3) = Some (?c4, ?d4)"
    using s4 by (simp add: dispatch_state_handler [OF phone(4)] del: dispatch.simps)
  have r5: "dispatch command (Message mc) (?c4, ?d4) = Some (?c5, ?d5)"
    using s5 by (simp add: dispatch_state_handler [OF skip_country(3)] del: dispatch.simps)
  have r6: "dispatch command (Message ma) (?c5, ?d5) = Some (no_session, ?d6)"
    using s6 by (simp add: dispatch_state_handler [OF skip_about(3)] del: dispatch.simps)
  have run: "run_updates command
      [Message m0, CallbackQuery c, Message mn, Message mp, Message mc, Message ma]
      (no_session, d)
    = Some [(?c1, d0), (?c2, ?d2), (?c3, ?d3), (?c4, ?d4), (?c5, ?d5), (no_session, ?d6)]"
    by (simp only: run_updates.simps r1 r2 r3 r4 r5 r6 option.case)
  show ?thesis
    using run u6 by (simp add: no_session_def del: dispatch.simps)
qed

theorem registration_run_witness:
  "\<exists>tr u. run_updates sample_command
       [Message (sample_message (Some ''/start'') None),
        CallbackQuery (sample_callback ''lang_en''),
        Message (sample_message (Some ''Ann'') None),
        Message (sample_message None (Some \<lparr>contact_phone_number = ''+15550100''\<rparr>)),
        Message (sample_message (Some ''/skip'') None),
        Message (sample_message (Some ''/skip'') None)]
       (no_session, empty_db\<lparr>users := [sample_user 8]\<rparr>) = Some tr
     \<and> map (\<lambda>s. fsm_state (fst s)) tr
         = [Some waiting_for_language, Some waiting_for_name, Some waiting_for_phone,
            Some waiting_for_country, Some waiting_for_about, None]
     \<and> fst (last tr) = no_session
     \<and> user_of (tg_id sample_tg_user) (snd (last tr)) = Some u
     \<and> registration_complete u \<and> country u = None \<and> about u = None"
proof -
  let ?d = "empty_db\<lparr>users := [sample_user 8]\<rparr>"
  have fresh: "case user_of (tg_id sample_tg_user) ?d of
                 None \<Rightarrow> True | Some u \<Rightarrow> \<not> registration_complete u"
    by (simp add: user_of_def empty_db_def sample_user_def sample_tg_user_def)
  have range: "in_int64 (tg_id sample_tg_user)"
    by (simp add: in_int64_def sample_tg_user_def)
  have storable: "users_storable ?d"
    by (simp add: users_storable_def in_int64_def empty_db_def sample_user_def)
  have start: "reaches_cmd_start sample_command (sample_message (Some ''/start'') None)"
    by (simp add: reaches_cmd_start_def sample_command_def sample_message_def)
  have name: "reaches_state_handlers sample_command (sample_message (Some ''Ann'') None)"
    by code_simp
  have phone: "reaches_state_handlers sample_command
      (sample_message None (Some \<lparr>contact_phone_number = ''+15550100''\<rparr>))"
    by code_simp
  have skip: "reaches_state_handlers sample_command (sample_message (Some ''/skip'') None)"
    by code_simp
  show ?thesis
    by (rule registration_run [where t = sample_tg_user and l = "''en''" and name = "''Ann''"
          and ct = "\<lparr>contact_phone_number = ''+15550100''\<rparr>",
          OF fresh range storable _ start _ _ _ _ _ name _ _ _ phone _ _ skip _ _ skip])
       (simp_all add: sample_message_def sample_callback_def)
qed

text \<open>
  C9 as stated fails for the name \<open>help\<close>, which has four characters:
  \<open>text_help\<close> is registered before \<open>process_name\<close> and takes the message, so the
  state stays \<open>waiting_for_name\<close>; the contact is then refused as a name, the first
  \<open>/skip\<close> is stored as the name and the second is refused as a phone contact. The
  run ends in \<open>waiting_for_phone\<close> with \<open>registration_complete\<close> still false.
\<close>

theorem registration_help_name_counterexample:
  "2 \<le> length ''help''
   \<and> map_option (map (\<lambda>s. fsm_state (fst s)))
       (run_updates sample_command
          [Message (sample_message (Some ''/start'') None),
           CallbackQuery (sample_callback ''lang_en''),
           Message (sample_message (Some ''help'') None),
           Message (sample_message None (Some \<lparr>contact_phone_number = ''+15550100''\<rparr>)),
           Message (sample_message (Some ''/skip'') None),
           Message (sample_message (Some ''/skip'') None)]
          (no_session, empty_db))
     = Some [Some waiting_for_language, Some waiting_for_name, Some waiting_for_name,
             Some waiting_for_name, Some waiting_for_phone, Some waiting_for_phone]
   \<and> map_option (\<lambda>tr. map_option registration_complete
                          (user_of (tg_id sample_tg_user) (snd (last tr))))
       (run_updates sample_command
          [Message (sample_message (Some ''/start'') None),
           CallbackQuery (sample_callback ''lang_en''),
           Message (sample_message (Some ''help'') None),
           Message (sample_message None (Some \<lparr>contact_phone_number = ''+15550100''\<rparr>)),
           Message (sample_message (Some ''/skip'') None),
           Message (sample_message (Some ''/skip'') None)]
          (no_session, empty_db))
     = Some (Some False)"
  by code_simp

end
